theory Spec2Isabelle
  imports Complex_Main "HOL-Library.Char_ord" "HOL-Library.List_Lexorder"
begin

section \<open>The sales report builder\<close>

text \<open>
  A shallow embedding of \<^verbatim>\<open>build_globaltech_analysis_final.py\<close>: a script that reads a
  sales table, checks its header, derives year and month, computes aggregates with pandas and
  writes a workbook whose cells are spreadsheet formulas over a copy of the table.

  Conventions of the embedding.
  \<^item> Amounts are exact rationals. The script computes in binary floating point; rounding
    is not modelled. A statement that equates sums is made for inputs on which sums of
    doubles are exact; no statement is made about the exact value of a rounded quotient.
  \<^item> A table line carries the eight columns the script reads, with the types the case-study
    data has: text columns hold text or nothing, the sales column holds a number or nothing,
    the date column holds a date, a text that is no date, or nothing.
  \<^item> A formula cell is modelled by the value the spreadsheet computes for it. The functions
    \<open>xl_SUM\<close>, \<open>xl_SUMIF\<close>, \<open>xl_SUMIFS\<close>, \<open>xl_COUNTA\<close> and \<open>xl_RANK\<close> stand for the
    spreadsheet's. A text criterion is a pattern: it matches a text cell without regard to
    case, \<open>?\<close> stands for any one character and \<open>*\<close> for any run of characters.
  \<^item> Charts, column widths and number formats carry no values and are left out.
\<close>

subsection \<open>User configuration\<close>

definition INPUT_FILE :: string where
  "INPUT_FILE = ''GLOBAL DATASET .xlsx''"

definition OUTPUT_FILE :: string where
  "OUTPUT_FILE = ''GlobalTech_Sales_Analysis.xlsx''"

definition HIGHLIGHT_MANAGER :: string where
  "HIGHLIGHT_MANAGER = ''Emmanuel''"

definition TOP_N_PRODUCTS :: nat where
  "TOP_N_PRODUCTS = 10"

subsection \<open>Column letters\<close>

text \<open>
  The body of the \<^verbatim>\<open>while True\<close> loop of \<^verbatim>\<open>col_idx_to_excel_col\<close>: \<open>divmod\<close>, prepend the
  letter, stop when the quotient is zero, otherwise decrement and go round again. The index is a
  natural number: every caller passes a position from \<^verbatim>\<open>enumerate\<close>.
\<close>

function col_idx_loop :: "nat \<Rightarrow> string \<Rightarrow> string" where
  "col_idx_loop idx letters =
     (let rem = idx mod 26;
          idx' = idx div 26;
          letters' = char_of (65 + rem) # letters
      in if idx' = 0 then letters' else col_idx_loop (idx' - 1) letters')"
  by pat_completeness auto
termination
  by (relation "measure fst") auto

declare col_idx_loop.simps [simp del]

definition col_idx_to_excel_col :: "nat \<Rightarrow> string" where
  "col_idx_to_excel_col idx = col_idx_loop idx []"

text \<open>
  What the claim about the letters compares the function with: an upper-case letter, and the
  number a string of letters denotes in bijective base 26 (\<open>A\<close> is 1, \<open>Z\<close> is 26, \<open>AA\<close> is 27).
\<close>

definition uppercase :: "char \<Rightarrow> bool" where
  "uppercase c = (CHR ''A'' \<le> c \<and> c \<le> CHR ''Z'')"

definition letter_value :: "char \<Rightarrow> nat" where
  "letter_value c = of_char c - 64"

definition bijective_base26 :: "string \<Rightarrow> nat" where
  "bijective_base26 s = foldl (\<lambda>acc c. 26 * acc + letter_value c) 0 s"

subsection \<open>The table\<close>

datatype date_value =
    DateOf int nat nat
  | BadDate string
  | NaT

record row =
  Order_Date :: date_value
  Category :: "string option"
  Sub_Category :: "string option"
  Product_Name :: "string option"
  Manager :: "string option"
  Sales :: "rat option"
  Order_ID :: "string option"
  Customer_ID :: "string option"

record dataframe =
  columns :: "string list"
  rows :: "row list"

text \<open>A line of the frame after step 2 of the script: the derived columns are added.\<close>

record prow = row +
  Year :: "int option"
  Month :: "nat option"

datatype error =
    FileNotFoundError string
  | ValueError string
  | IndexError
  | KeyError string

subsection \<open>Required columns\<close>

definition required :: "string list" where
  "required = [''Order Date'', ''Category'', ''Sub-Category'', ''Product Name'',
               ''Manager'', ''Sales'', ''Order ID'', ''Customer ID'']"

definition missing_column_message :: "string \<Rightarrow> string" where
  "missing_column_message c = ''Required column missing from input: '' @ [CHR 0x27] @ c @ [CHR 0x27]"

text \<open>The \<^verbatim>\<open>for c in required\<close> loop: the first absent name raises.\<close>

fun check_required :: "string list \<Rightarrow> string list \<Rightarrow> error + unit" where
  "check_required [] cols = Inr ()"
| "check_required (c # cs) cols =
     (if c \<notin> set cols then Inl (ValueError (missing_column_message c))
      else check_required cs cols)"

subsection \<open>Year, month and manager preparation\<close>

text \<open>\<^verbatim>\<open>pd.to_datetime(..., errors="coerce")\<close>: what is no date becomes \<open>NaT\<close>.\<close>

fun to_datetime :: "date_value \<Rightarrow> date_value" where
  "to_datetime (DateOf y m d) = DateOf y m d"
| "to_datetime (BadDate s) = NaT"
| "to_datetime NaT = NaT"

fun dt_year :: "date_value \<Rightarrow> int option" where
  "dt_year (DateOf y m d) = Some y"
| "dt_year (BadDate s) = None"
| "dt_year NaT = None"

fun dt_month :: "date_value \<Rightarrow> nat option" where
  "dt_month (DateOf y m d) = Some m"
| "dt_month (BadDate s) = None"
| "dt_month NaT = None"

fun fillna :: "'a \<Rightarrow> 'a option \<Rightarrow> 'a option" where
  "fillna v None = Some v"
| "fillna v (Some x) = Some x"

definition prepare :: "row \<Rightarrow> prow" where
  "prepare r =
     \<lparr>Order_Date = to_datetime (Order_Date r),
      Category = Category r,
      Sub_Category = Sub_Category r,
      Product_Name = Product_Name r,
      Manager = fillna [] (Manager r),
      Sales = Sales r,
      Order_ID = Order_ID r,
      Customer_ID = Customer_ID r,
      Year = dt_year (to_datetime (Order_Date r)),
      Month = dt_month (to_datetime (Order_Date r))\<rparr>"

text \<open>Assigning to a column that is not there appends it; otherwise the header is unchanged.\<close>

definition add_column :: "string \<Rightarrow> string list \<Rightarrow> string list" where
  "add_column c cols = (if c \<in> set cols then cols else cols @ [c])"

subsection \<open>The pandas operations the script uses\<close>

fun dropna :: "'a option list \<Rightarrow> 'a list" where
  "dropna [] = []"
| "dropna (None # xs) = dropna xs"
| "dropna (Some x # xs) = x # dropna xs"

text \<open>\<open>unique\<close> keeps the first occurrence of each value, in order of appearance.\<close>

definition unique :: "'a list \<Rightarrow> 'a list" where
  "unique xs = rev (remdups (rev xs))"

definition nunique :: "'a option list \<Rightarrow> nat" where
  "nunique xs = length (unique (dropna xs))"

text \<open>\<open>Series.sum\<close> skips missing values; the sum of nothing is 0.\<close>

definition series_sum :: "rat option list \<Rightarrow> rat" where
  "series_sum xs = sum_list (dropna xs)"

text \<open>
  \<^verbatim>\<open>df.groupby(key)["Sales"].sum()\<close>: lines whose key is missing are dropped, the groups come
  in sorted key order.
\<close>

definition groupby_sum :: "(prow \<Rightarrow> ('k :: linorder) option) \<Rightarrow> prow list \<Rightarrow> ('k \<times> rat) list" where
  "groupby_sum key df =
     map (\<lambda>k. (k, series_sum (map Sales (filter (\<lambda>r. key r = Some k) df))))
       (sort (unique (dropna (map key df))))"

text \<open>
  \<^verbatim>\<open>sort_values(ascending=False)\<close>. Equal totals stay in index order, as a stable sort leaves
  them; numpy promises no order among equal values.
\<close>

definition sort_values_desc :: "('k \<times> rat) list \<Rightarrow> ('k \<times> rat) list" where
  "sort_values_desc s = sort_key (\<lambda>kv. - snd kv) s"

definition mean :: "rat list \<Rightarrow> rat" where
  "mean xs = sum_list xs / of_nat (length xs)"

text \<open>Python's truth value of a name that is \<^verbatim>\<open>None\<close> or a string.\<close>

fun truthy :: "string option \<Rightarrow> bool" where
  "truthy None = False"
| "truthy (Some s) = (s \<noteq> [])"

subsection \<open>Aggregates for the findings\<close>

definition total_sales_val :: "prow list \<Rightarrow> rat" where
  "total_sales_val df = series_sum (map Sales df)"

definition total_orders :: "prow list \<Rightarrow> nat" where
  "total_orders df = nunique (map Order_ID df)"

definition distinct_managers :: "prow list \<Rightarrow> nat" where
  "distinct_managers df = nunique (map Manager df)"

definition avg_order_value :: "prow list \<Rightarrow> rat" where
  "avg_order_value df =
     (if total_orders df \<noteq> 0 then total_sales_val df / of_nat (total_orders df) else 0)"

definition years :: "prow list \<Rightarrow> int list" where
  "years df = sort (unique (dropna (map Year df)))"

text \<open>
  \<^verbatim>\<open>groupby(["Category", "Year"])["Sales"].sum().unstack(fill_value=0)\<close>: the lines with both a
  category and a year; one table line per category, one column per year, 0 where a pair has no
  line.
\<close>

definition cat_sales_by_year :: "prow list \<Rightarrow> (string \<times> (int \<times> rat) list) list" where
  "cat_sales_by_year df =
     (let keyed = filter (\<lambda>r. Category r \<noteq> None \<and> Year r \<noteq> None) df;
          cats = sort (unique (dropna (map Category keyed)));
          yrs = sort (unique (dropna (map Year keyed)))
      in map (\<lambda>c. (c, map (\<lambda>y. (y, series_sum (map Sales
               (filter (\<lambda>r. Category r = Some c \<and> Year r = Some y) keyed)))) yrs)) cats)"

definition cat_totals :: "prow list \<Rightarrow> (string \<times> rat) list" where
  "cat_totals df = sort_values_desc (groupby_sum Category df)"

definition mgr_totals :: "prow list \<Rightarrow> (string \<times> rat) list" where
  "mgr_totals df = sort_values_desc (groupby_sum Manager df)"

definition prod_totals :: "prow list \<Rightarrow> (string \<times> rat) list" where
  "prod_totals df = sort_values_desc (groupby_sum Product_Name df)"

text \<open>\<^verbatim>\<open>s.index[0] if not s.empty else None\<close> and \<^verbatim>\<open>s.iloc[0] if not s.empty else 0\<close>.\<close>

fun top_label :: "(string \<times> rat) list \<Rightarrow> string option" where
  "top_label [] = None"
| "top_label (kv # s) = Some (fst kv)"

fun top_amount :: "(string \<times> rat) list \<Rightarrow> rat" where
  "top_amount [] = 0"
| "top_amount (kv # s) = snd kv"

record aggregates =
  agg_total_sales :: rat
  agg_total_orders :: nat
  agg_distinct_managers :: nat
  agg_avg_order_value :: rat
  agg_first_year :: int
  agg_last_year :: int
  agg_cat_sales_by_year :: "(string \<times> (int \<times> rat) list) list"
  agg_cat_totals :: "(string \<times> rat) list"
  agg_top_category :: "string option"
  agg_mgr_totals :: "(string \<times> rat) list"
  agg_top_manager :: "string option"
  agg_top_manager_sales :: rat
  agg_prod_totals :: "(string \<times> rat) list"
  agg_top_product :: "string option"
  agg_top_product_share :: rat

text \<open>
  Lines 48 to 70 of the script. \<^verbatim>\<open>years[0]\<close> raises \<open>IndexError\<close> on an empty list, and so does
  \<^verbatim>\<open>prod_totals.iloc[0]\<close>, which is evaluated whenever the total is not zero.
\<close>

definition top_product_share :: "prow list \<Rightarrow> error + rat" where
  "top_product_share df =
     (if total_sales_val df \<noteq> 0
      then (case prod_totals df of
              [] \<Rightarrow> Inl IndexError
            | kv # s \<Rightarrow> Inr (snd kv / total_sales_val df))
      else Inr 0)"

definition compute_aggregates :: "prow list \<Rightarrow> error + aggregates" where
  "compute_aggregates df =
     (case years df of
        [] \<Rightarrow> Inl IndexError
      | y # ys \<Rightarrow>
          (case top_product_share df of
             Inl e \<Rightarrow> Inl e
           | Inr share \<Rightarrow>
               Inr \<lparr>agg_total_sales = total_sales_val df,
                    agg_total_orders = total_orders df,
                    agg_distinct_managers = distinct_managers df,
                    agg_avg_order_value = avg_order_value df,
                    agg_first_year = y,
                    agg_last_year = last (y # ys),
                    agg_cat_sales_by_year = cat_sales_by_year df,
                    agg_cat_totals = cat_totals df,
                    agg_top_category = top_label (cat_totals df),
                    agg_mgr_totals = mgr_totals df,
                    agg_top_manager = top_label (mgr_totals df),
                    agg_top_manager_sales = top_amount (mgr_totals df),
                    agg_prod_totals = prod_totals df,
                    agg_top_product = top_label (prod_totals df),
                    agg_top_product_share = share\<rparr>))"

subsection \<open>Spreadsheet cells and functions\<close>

datatype cell = Blank | Number rat | Text string

text \<open>
  How a frame value lands in a cell of the Data sheet: a missing value and an empty string
  leave the cell empty.
\<close>

fun xl_text :: "string option \<Rightarrow> cell" where
  "xl_text None = Blank"
| "xl_text (Some s) = (if s = [] then Blank else Text s)"

fun xl_number :: "rat option \<Rightarrow> cell" where
  "xl_number None = Blank"
| "xl_number (Some v) = Number v"

fun xl_year :: "int option \<Rightarrow> cell" where
  "xl_year None = Blank"
| "xl_year (Some y) = Number (of_int y)"

text \<open>
  A whole-column range of the Data sheet, \<^verbatim>\<open>Data!$X:$X\<close>: the header cell written by
  \<^verbatim>\<open>df.to_excel\<close>, then one cell per line.
\<close>

definition data_column :: "string \<Rightarrow> (prow \<Rightarrow> cell) \<Rightarrow> prow list \<Rightarrow> cell list" where
  "data_column name f df = Text name # map f df"

definition manager_column :: "prow list \<Rightarrow> cell list" where
  "manager_column df = data_column ''Manager'' (\<lambda>r. xl_text (Manager r)) df"

definition sales_column :: "prow list \<Rightarrow> cell list" where
  "sales_column df = data_column ''Sales'' (\<lambda>r. xl_number (Sales r)) df"

definition order_id_column :: "prow list \<Rightarrow> cell list" where
  "order_id_column df = data_column ''Order ID'' (\<lambda>r. xl_text (Order_ID r)) df"

definition product_column :: "prow list \<Rightarrow> cell list" where
  "product_column df = data_column ''Product Name'' (\<lambda>r. xl_text (Product_Name r)) df"

definition category_column :: "prow list \<Rightarrow> cell list" where
  "category_column df = data_column ''Category'' (\<lambda>r. xl_text (Category r)) df"

definition year_column :: "prow list \<Rightarrow> cell list" where
  "year_column df = data_column ''Year'' (\<lambda>r. xl_year (Year r)) df"

fun number_of :: "cell \<Rightarrow> rat" where
  "number_of (Number v) = v"
| "number_of Blank = 0"
| "number_of (Text s) = 0"

definition xl_SUM :: "cell list \<Rightarrow> rat" where
  "xl_SUM cells = sum_list (map number_of cells)"

text \<open>
  How \<^verbatim>\<open>SUMIF\<close> and \<^verbatim>\<open>SUMIFS\<close> compare a text criterion with a cell. The comparison ignores
  case. In the criterion \<open>?\<close> matches any one character, \<open>*\<close> any run of characters, and \<open>~\<close>
  before \<open>?\<close>, \<open>*\<close> or \<open>~\<close> makes that character stand for itself. Only text cells match a
  text criterion. The spreadsheet reads a criterion that starts with a comparison sign, or that
  spells a number, a date or a truth value, in yet another way; that reading is not modelled,
  and the statements below that depend on matching are about names made of letters and spaces.
\<close>

definition to_upper :: "char \<Rightarrow> char" where
  "to_upper c =
     (case map_of (zip ''abcdefghijklmnopqrstuvwxyz'' ''ABCDEFGHIJKLMNOPQRSTUVWXYZ'') c of
        None \<Rightarrow> c
      | Some u \<Rightarrow> u)"

fun wildcard_match :: "string \<Rightarrow> string \<Rightarrow> bool" where
  "wildcard_match [] [] = True"
| "wildcard_match [] (c # t) = False"
| "wildcard_match (p # ps) [] = (p = CHR ''*'' \<and> wildcard_match ps [])"
| "wildcard_match (p # ps) (c # t) =
     (if p = CHR ''*'' then wildcard_match ps (c # t) \<or> wildcard_match (p # ps) t
      else if p = CHR ''?'' then wildcard_match ps t
      else if p = CHR ''~'' then
        (case ps of
           [] \<Rightarrow> c = p \<and> wildcard_match ps t
         | q # qs \<Rightarrow>
             if q = CHR ''*'' \<or> q = CHR ''?'' \<or> q = CHR ''~''
             then c = q \<and> wildcard_match qs t
             else c = p \<and> wildcard_match ps t)
      else c = p \<and> wildcard_match ps t)"

fun xl_matches :: "string \<Rightarrow> cell \<Rightarrow> bool" where
  "xl_matches crit (Text t) = wildcard_match (map to_upper crit) (map to_upper t)"
| "xl_matches crit (Number v) = False"
| "xl_matches crit Blank = False"

text \<open>A criterion given as a value: a text is a pattern, a number matches that number.\<close>

fun xl_meets :: "cell \<Rightarrow> cell \<Rightarrow> bool" where
  "xl_meets (Text crit) c = xl_matches crit c"
| "xl_meets (Number v) c = (c = Number v)"
| "xl_meets Blank c = False"

definition xl_SUMIF :: "cell list \<Rightarrow> string \<Rightarrow> cell list \<Rightarrow> rat" where
  "xl_SUMIF crit_range crit sum_range =
     xl_SUM (map snd (filter (\<lambda>p. xl_matches crit (fst p)) (zip crit_range sum_range)))"

definition xl_SUMIFS :: "cell list \<Rightarrow> (cell list \<times> cell) list \<Rightarrow> rat" where
  "xl_SUMIFS sum_range crits =
     xl_SUM (map snd (filter
       (\<lambda>p. list_all (\<lambda>rc. fst p < length (fst rc) \<and> xl_meets (snd rc) (fst rc ! fst p)) crits)
       (enumerate 0 sum_range)))"

definition xl_COUNTA :: "cell list \<Rightarrow> nat" where
  "xl_COUNTA cells = length (filter (\<lambda>c. c \<noteq> Blank) cells)"

text \<open>\<^verbatim>\<open>RANK(v, range, 0)\<close>: one more than the number of larger values in the range.\<close>

definition xl_RANK :: "rat \<Rightarrow> rat list \<Rightarrow> nat" where
  "xl_RANK v vals = 1 + length (filter (\<lambda>x. v < x) vals)"

text \<open>
  A quotient cell: \<open>None\<close> is the error value \<^verbatim>\<open>#DIV/0!\<close>. The quotient is the exact one; the
  spreadsheet rounds it to the nearest double. Nothing below is proved from the exactness of a
  quotient.
\<close>

definition xl_divide :: "rat \<Rightarrow> rat \<Rightarrow> rat option" where
  "xl_divide a b = (if b = 0 then None else Some (a / b))"

fun xl_IFERROR :: "rat option \<Rightarrow> rat \<Rightarrow> rat" where
  "xl_IFERROR None d = d"
| "xl_IFERROR (Some v) d = v"

subsection \<open>Manager Performance sheet\<close>

record mgr_row =
  mgr :: string
  mgr_sales :: rat
  mgr_rank :: nat

text \<open>\<^verbatim>\<open>.replace("", pd.NA)\<close> on one value.\<close>

fun replace_empty_NA :: "string option \<Rightarrow> string option" where
  "replace_empty_NA None = None"
| "replace_empty_NA (Some s) = (if s = [] then None else Some s)"

definition managers :: "prow list \<Rightarrow> string list" where
  "managers df = sort (unique (dropna (map (\<lambda>r. replace_empty_NA (Manager r)) df)))"

definition manager_sales_formula :: "prow list \<Rightarrow> string \<Rightarrow> rat" where
  "manager_sales_formula df m = xl_SUMIF (manager_column df) m (sales_column df)"

definition manager_sheet :: "prow list \<Rightarrow> mgr_row list" where
  "manager_sheet df =
     map (\<lambda>m. \<lparr>mgr = m,
                mgr_sales = manager_sales_formula df m,
                mgr_rank = xl_RANK (manager_sales_formula df m)
                             (map (manager_sales_formula df) (managers df))\<rparr>)
       (managers df)"

subsection \<open>Category Trends sheet\<close>

definition categories :: "prow list \<Rightarrow> string list" where
  "categories df = sort (unique (dropna (map Category df)))"

definition category_sheet :: "prow list \<Rightarrow> (string \<times> (int \<times> rat) list) list" where
  "category_sheet df =
     map (\<lambda>c. (c, map (\<lambda>y. (y, xl_SUMIFS (sales_column df)
                  [(category_column df, Text c), (year_column df, Number (of_int y))]))
                (years df)))
       (categories df)"

subsection \<open>Top Products sheet\<close>

record prod_row =
  product :: string
  prod_sales :: rat
  pct_of_total :: "rat option"

definition prod_list :: "prow list \<Rightarrow> string list" where
  "prod_list df = map fst (take TOP_N_PRODUCTS (prod_totals df))"

definition product_sales_formula :: "prow list \<Rightarrow> string \<Rightarrow> rat" where
  "product_sales_formula df p = xl_SUMIF (product_column df) p (sales_column df)"

definition product_sheet :: "prow list \<Rightarrow> prod_row list" where
  "product_sheet df =
     map (\<lambda>p. \<lparr>product = p,
                prod_sales = product_sales_formula df p,
                pct_of_total = xl_divide (product_sales_formula df p)
                  (xl_SUM (map (\<lambda>q. Number (product_sales_formula df q)) (prod_list df)))\<rparr>)
       (prod_list df)"

subsection \<open>Dashboard sheet\<close>

record kpis =
  kpi_total_sales :: rat
  kpi_total_orders :: int
  kpi_total_managers :: nat
  kpi_avg_order_value :: rat
  yearly_sales :: "(int \<times> rat) list"

definition dashboard_sheet :: "prow list \<Rightarrow> kpis" where
  "dashboard_sheet df =
     \<lparr>kpi_total_sales = xl_SUM (sales_column df),
      kpi_total_orders = int (xl_COUNTA (order_id_column df)) - 1,
      kpi_total_managers = distinct_managers df,
      kpi_avg_order_value =
        xl_IFERROR (xl_divide (xl_SUM (sales_column df))
                      (of_nat (xl_COUNTA (order_id_column df)))) 0,
      yearly_sales =
        map (\<lambda>y. (y, xl_SUMIFS (sales_column df) [(year_column df, Number (of_int y))]))
          (years df)\<rparr>"

subsection \<open>Findings page\<close>

text \<open>
  The page is a list of formatted text lines. The model keeps the quantities the lines are
  formatted from: the four figures of the executive summary, and the three sections that are
  only written when their subject is a non-empty name.
\<close>

record findings =
  f_total_sales :: rat
  f_total_orders :: nat
  f_distinct_managers :: nat
  f_avg_order_value :: rat
  f_manager :: "(string \<times> rat \<times> rat) option"
  f_category :: "(string \<times> int \<times> rat \<times> int \<times> rat \<times> rat) option"
  f_product :: "(string \<times> rat) option"

text \<open>The column labels of the unstacked table, and \<^verbatim>\<open>.loc[category, year]\<close> on it.\<close>

fun table_columns :: "(string \<times> (int \<times> rat) list) list \<Rightarrow> int list" where
  "table_columns [] = []"
| "table_columns (line # t) = map fst (snd line)"

definition loc :: "(string \<times> (int \<times> rat) list) list \<Rightarrow> string \<Rightarrow> int \<Rightarrow> error + rat" where
  "loc t c y =
     (case map_of t c of
        None \<Rightarrow> Inl (KeyError c)
      | Some line \<Rightarrow>
          (case map_of line y of
             None \<Rightarrow> Inl (KeyError c)
           | Some v \<Rightarrow> Inr v))"

definition year_figure :: "(string \<times> (int \<times> rat) list) list \<Rightarrow> string \<Rightarrow> int \<Rightarrow> error + rat" where
  "year_figure t c y = (if y \<in> set (table_columns t) then loc t c y else Inr 0)"

definition manager_section :: "aggregates \<Rightarrow> (string \<times> rat \<times> rat) option" where
  "manager_section ag =
     (case agg_top_manager ag of
        None \<Rightarrow> None
      | Some m \<Rightarrow>
          if m = [] then None
          else let avg = mean (map snd (agg_mgr_totals ag));
                   pct_above_avg =
                     (if avg \<noteq> 0 then (agg_top_manager_sales ag - avg) / avg * 100 else 0)
               in Some (m, agg_top_manager_sales ag, pct_above_avg))"

definition category_section ::
    "aggregates \<Rightarrow> error + (string \<times> int \<times> rat \<times> int \<times> rat \<times> rat) option" where
  "category_section ag =
     (case agg_top_category ag of
        None \<Rightarrow> Inr None
      | Some c \<Rightarrow>
          if c = [] then Inr None
          else (case year_figure (agg_cat_sales_by_year ag) c (agg_first_year ag) of
                  Inl e \<Rightarrow> Inl e
                | Inr first_v \<Rightarrow>
                    (case year_figure (agg_cat_sales_by_year ag) c (agg_last_year ag) of
                       Inl e \<Rightarrow> Inl e
                     | Inr last_v \<Rightarrow>
                         Inr (Some (c, agg_first_year ag, first_v, agg_last_year ag, last_v,
                           (if first_v \<noteq> 0 then (last_v - first_v) / first_v * 100 else 0))))))"

definition product_section :: "aggregates \<Rightarrow> (string \<times> rat) option" where
  "product_section ag =
     (case agg_top_product ag of
        None \<Rightarrow> None
      | Some p \<Rightarrow> if p = [] then None else Some (p, agg_top_product_share ag * 100))"

definition findings_lines :: "aggregates \<Rightarrow> error + findings" where
  "findings_lines ag =
     (case category_section ag of
        Inl e \<Rightarrow> Inl e
      | Inr cat \<Rightarrow>
          Inr \<lparr>f_total_sales = agg_total_sales ag,
               f_total_orders = agg_total_orders ag,
               f_distinct_managers = agg_distinct_managers ag,
               f_avg_order_value = agg_avg_order_value ag,
               f_manager = manager_section ag,
               f_category = cat,
               f_product = product_section ag\<rparr>)"

subsection \<open>The script\<close>

record workbook =
  data_header :: "string list"
  data_rows :: "prow list"
  manager_performance :: "mgr_row list"
  category_trends :: "(string \<times> (int \<times> rat) list) list"
  top_products :: "prod_row list"
  dashboard :: kpis
  findings_page :: "findings option"

text \<open>
  The file system at the two paths the script names, \<open>INPUT_FILE\<close> and \<open>OUTPUT_FILE\<close>, and a log
  of the stages the run went through. The two paths differ, so writing the one never changes the
  other. An input file is given by the frame pandas reads from it; \<open>INPUT_FILE\<close> does not end in
  \<^verbatim>\<open>.csv\<close>, so the reader is \<^verbatim>\<open>read_excel\<close>.
\<close>

datatype stage = LoadInput | ComputeAggregates | OpenOutput | SaveOutput

record state =
  input_file :: "dataframe option"
  output_file :: "workbook option"
  performed :: "stage list"

definition did :: "stage \<Rightarrow> state \<Rightarrow> state" where
  "did e st = st\<lparr>performed := performed st @ [e]\<rparr>"

definition file_not_found_message :: string where
  "file_not_found_message =
     ''Input file '' @ [CHR 0x27] @ INPUT_FILE @ [CHR 0x27] @
     '' not found. Put the dataset in same folder or change INPUT_FILE.''"

text \<open>The sheets written before the findings page, from the prepared frame.\<close>

definition sheets :: "string list \<Rightarrow> prow list \<Rightarrow> workbook" where
  "sheets header df =
     \<lparr>data_header = add_column ''Month'' (add_column ''Year'' header),
      data_rows = df,
      manager_performance = manager_sheet df,
      category_trends = category_sheet df,
      top_products = product_sheet df,
      dashboard = dashboard_sheet df,
      findings_page = None\<rparr>"

text \<open>
  The script from top to bottom. An exception ends the run with the state reached so far. The
  writer is a context manager that saves the workbook when its block is left, also by an
  exception: a \<open>KeyError\<close> from the findings leaves a workbook without the findings lines.
\<close>

definition main :: "state \<Rightarrow> (error + aggregates) \<times> state" where
  "main st =
     (case input_file st of
        None \<Rightarrow> (Inl (FileNotFoundError file_not_found_message), st)
      | Some loaded \<Rightarrow>
          (case check_required required (columns loaded) of
             Inl e \<Rightarrow> (Inl e, did LoadInput st)
           | Inr u \<Rightarrow>
               (case compute_aggregates (map prepare (rows loaded)) of
                  Inl e \<Rightarrow> (Inl e, did LoadInput st)
                | Inr ag \<Rightarrow>
                    (let st' = did OpenOutput (did ComputeAggregates (did LoadInput st));
                         wb = sheets (columns loaded) (map prepare (rows loaded))
                     in case findings_lines ag of
                          Inl e \<Rightarrow> (Inl e, did SaveOutput (st'\<lparr>output_file := Some wb\<rparr>))
                        | Inr f \<Rightarrow>
                            (Inr ag, did SaveOutput
                               (st'\<lparr>output_file := Some (wb\<lparr>findings_page := Some f\<rparr>)\<rparr>))))))"

text \<open>A run completes when the script reaches its end without an exception.\<close>

definition completes :: "state \<Rightarrow> bool" where
  "completes st = (case fst (main st) of Inl e \<Rightarrow> False | Inr ag \<Rightarrow> True)"

text \<open>
  A run saves a workbook when \<open>SaveOutput\<close> is among the stages it adds to the log: the run
  completes, or it raises inside the writer's block.
\<close>

definition saves_output :: "state \<Rightarrow> bool" where
  "saves_output st = (SaveOutput \<in> set (drop (length (performed st)) (performed (snd (main st)))))"

text \<open>The amount a line adds to a sum that skips missing values.\<close>

definition amount :: "'a row_scheme \<Rightarrow> rat" where
  "amount r = (case Sales r of None \<Rightarrow> 0 | Some v \<Rightarrow> v)"

text \<open>
  A plain name: letters and inner spaces only, and not a truth value. On plain names a
  criterion is read as a pattern without wildcards.
\<close>

definition letter :: "char \<Rightarrow> bool" where
  "letter c = ((CHR ''A'' \<le> c \<and> c \<le> CHR ''Z'') \<or> (CHR ''a'' \<le> c \<and> c \<le> CHR ''z''))"

definition plain_name :: "string \<Rightarrow> bool" where
  "plain_name m =
     (m \<noteq> [] \<and> list_all (\<lambda>c. letter c \<or> c = CHR '' '') m \<and> letter (hd m) \<and> letter (last m)
      \<and> map to_upper m \<noteq> ''TRUE'' \<and> map to_upper m \<noteq> ''FALSE'')"

text \<open>Every line names a manager, by a plain name.\<close>

definition plain_managers :: "row list \<Rightarrow> bool" where
  "plain_managers rs =
     list_all (\<lambda>r. case Manager r of None \<Rightarrow> False | Some m \<Rightarrow> plain_name m) rs"

text \<open>No two manager names differ in case only.\<close>

definition names_differ_beyond_case :: "row list \<Rightarrow> bool" where
  "names_differ_beyond_case rs =
     distinct (map (map to_upper) (remdups (dropna (map Manager rs))))"

text \<open>
  Whole amounts whose absolute values add up to less than \<open>2 ^ 53\<close>. On such a column every
  partial sum, in any order, is a whole number below \<open>2 ^ 53\<close> in absolute value, so a sum
  computed in doubles is the exact sum.
\<close>

definition whole_amounts :: "row list \<Rightarrow> bool" where
  "whole_amounts rs =
     (list_all (\<lambda>r. of_int \<lfloor>amount r\<rfloor> = amount r) rs \<and> (\<Sum>r\<leftarrow>rs. \<bar>amount r\<bar>) < 2 ^ 53)"

text \<open>The key under which criterion matching groups a manager cell.\<close>

definition name_key :: "string option \<Rightarrow> string option" where
  "name_key x = map_option (map to_upper) (replace_empty_NA x)"

subsection \<open>Sample inputs\<close>

text \<open>A first run in an empty folder holding only the input file.\<close>

definition fresh_run :: "dataframe \<Rightarrow> state" where
  "fresh_run loaded = \<lparr>input_file = Some loaded, output_file = None, performed = []\<rparr>"

text \<open>Two managers, A with 100 and B with 200, both in 2011.\<close>

definition toy_frame :: dataframe where
  "toy_frame =
     \<lparr>columns = required,
      rows =
        [\<lparr>Order_Date = DateOf 2011 1 5, Category = Some ''Technology'',
          Sub_Category = Some ''Phones'', Product_Name = Some ''Handset'',
          Manager = Some ''A'', Sales = Some 100,
          Order_ID = Some ''O1'', Customer_ID = Some ''C1''\<rparr>,
         \<lparr>Order_Date = DateOf 2011 3 9, Category = Some ''Furniture'',
          Sub_Category = Some ''Chairs'', Product_Name = Some ''Stool'',
          Manager = Some ''B'', Sales = Some 200,
          Order_ID = Some ''O2'', Customer_ID = Some ''C2''\<rparr>]\<rparr>"

text \<open>One line of manager B and one line whose manager cell is empty.\<close>

definition unassigned_frame :: dataframe where
  "unassigned_frame =
     \<lparr>columns = required,
      rows =
        [\<lparr>Order_Date = DateOf 2012 6 1, Category = Some ''Technology'',
          Sub_Category = Some ''Phones'', Product_Name = Some ''Handset'',
          Manager = Some ''B'', Sales = Some 200,
          Order_ID = Some ''O1'', Customer_ID = Some ''C1''\<rparr>,
         \<lparr>Order_Date = DateOf 2012 7 2, Category = Some ''Technology'',
          Sub_Category = Some ''Phones'', Product_Name = Some ''Handset'',
          Manager = None, Sales = Some 50,
          Order_ID = Some ''O2'', Customer_ID = Some ''C2''\<rparr>]\<rparr>"

text \<open>A folder without the input file.\<close>

definition empty_folder :: state where
  "empty_folder = \<lparr>input_file = None, output_file = None, performed = []\<rparr>"

text \<open>A header that lacks both \<open>Category\<close> and \<open>Sales\<close>.\<close>

definition short_header_frame :: dataframe where
  "short_header_frame =
     \<lparr>columns = [''Order Date'', ''Sub-Category'', ''Product Name'', ''Manager'',
                 ''Order ID'', ''Customer ID''],
      rows = []\<rparr>"

text \<open>All required columns, and one line whose date cannot be read.\<close>

definition bad_dates_frame :: dataframe where
  "bad_dates_frame =
     \<lparr>columns = required,
      rows =
        [\<lparr>Order_Date = BadDate ''31/31/2011'', Category = Some ''Technology'',
          Sub_Category = Some ''Phones'', Product_Name = Some ''Handset'',
          Manager = Some ''A'', Sales = Some 100,
          Order_ID = Some ''O1'', Customer_ID = Some ''C1''\<rparr>]\<rparr>"

text \<open>
  The category with the largest total has no line with a readable date; another category
  has one.
\<close>

definition undated_leader_frame :: dataframe where
  "undated_leader_frame =
     \<lparr>columns = required,
      rows =
        [\<lparr>Order_Date = BadDate ''n/a'', Category = Some ''Technology'',
          Sub_Category = Some ''Phones'', Product_Name = Some ''Handset'',
          Manager = Some ''A'', Sales = Some 100,
          Order_ID = Some ''O1'', Customer_ID = Some ''C1''\<rparr>,
         \<lparr>Order_Date = DateOf 2011 3 9, Category = Some ''Furniture'',
          Sub_Category = Some ''Chairs'', Product_Name = Some ''Stool'',
          Manager = Some ''B'', Sales = Some 1,
          Order_ID = Some ''O2'', Customer_ID = Some ''C2''\<rparr>]\<rparr>"

text \<open>Two managers whose names differ in case only.\<close>

definition case_frame :: dataframe where
  "case_frame =
     \<lparr>columns = required,
      rows =
        [\<lparr>Order_Date = DateOf 2011 1 5, Category = Some ''Technology'',
          Sub_Category = Some ''Phones'', Product_Name = Some ''Handset'',
          Manager = Some ''Bob'', Sales = Some 100,
          Order_ID = Some ''O1'', Customer_ID = Some ''C1''\<rparr>,
         \<lparr>Order_Date = DateOf 2011 3 9, Category = Some ''Furniture'',
          Sub_Category = Some ''Chairs'', Product_Name = Some ''Stool'',
          Manager = Some ''bob'', Sales = Some 200,
          Order_ID = Some ''O2'', Customer_ID = Some ''C2''\<rparr>]\<rparr>"

text \<open>One order of two lines.\<close>

definition repeated_order_frame :: dataframe where
  "repeated_order_frame =
     \<lparr>columns = required,
      rows =
        [\<lparr>Order_Date = DateOf 2013 2 1, Category = Some ''Technology'',
          Sub_Category = Some ''Phones'', Product_Name = Some ''Handset'',
          Manager = Some ''A'', Sales = Some 100,
          Order_ID = Some ''O1'', Customer_ID = Some ''C1''\<rparr>,
         \<lparr>Order_Date = DateOf 2013 2 1, Category = Some ''Technology'',
          Sub_Category = Some ''Accessories'', Product_Name = Some ''Charger'',
          Manager = Some ''A'', Sales = Some 100,
          Order_ID = Some ''O1'', Customer_ID = Some ''C1''\<rparr>]\<rparr>"

section \<open>Properties\<close>

subsection \<open>Column letters\<close>

lemma col_idx_loop_append: "col_idx_loop idx letters = col_idx_loop idx [] @ letters"
proof (induction idx arbitrary: letters rule: less_induct)
  case (less idx)
  show ?case
  proof (cases "idx div 26 = 0")
    case True
    then show ?thesis by (simp add: col_idx_loop.simps [of idx] Let_def)
  next
    case False
    then have lt: "idx div 26 - 1 < idx" by auto
    have "col_idx_loop idx letters = col_idx_loop (idx div 26 - 1) (char_of (65 + idx mod 26) # letters)"
      using False by (simp add: col_idx_loop.simps [of idx] Let_def)
    also have "\<dots> = col_idx_loop (idx div 26 - 1) [] @ (char_of (65 + idx mod 26) # letters)"
      using less.IH [OF lt] by blast
    also have "\<dots> = (col_idx_loop (idx div 26 - 1) [] @ [char_of (65 + idx mod 26)]) @ letters"
      by simp
    also have "col_idx_loop (idx div 26 - 1) [] @ [char_of (65 + idx mod 26)] = col_idx_loop (idx div 26 - 1) [char_of (65 + idx mod 26)]"
      using less.IH [OF lt, of "[char_of (65 + idx mod 26)]"] by simp
    also have "\<dots> = col_idx_loop idx []"
      using False by (simp add: col_idx_loop.simps [of idx] Let_def)
    finally show ?thesis .
  qed
qed

lemma col_unfold:
  "col_idx_to_excel_col idx =
     (if idx div 26 = 0 then [char_of (65 + idx mod 26)]
      else col_idx_to_excel_col (idx div 26 - 1) @ [char_of (65 + idx mod 26)])"
  unfolding col_idx_to_excel_col_def
  using col_idx_loop_append [of "idx div 26 - 1" "[char_of (65 + idx mod 26)]"]
  by (simp add: col_idx_loop.simps [of idx] Let_def)

lemma letter_value_chr: "(r::nat) < 26 \<Longrightarrow> letter_value (char_of (65 + r)) = r + 1"
  by (simp add: letter_value_def)

lemma uppercase_chr: "(r::nat) < 26 \<Longrightarrow> uppercase (char_of (65 + r))"
  unfolding uppercase_def less_eq_char_def by simp

lemma bij_snoc: "bijective_base26 (s @ [c]) = 26 * bijective_base26 s + letter_value c"
  by (simp add: bijective_base26_def)

lemma bij_col: "bijective_base26 (col_idx_to_excel_col idx) = idx + 1"
proof (induction idx rule: less_induct)
  case (less idx)
  have r: "idx mod 26 < 26" by simp
  show ?case
  proof (cases "idx div 26 = 0")
    case True
    then have "col_idx_to_excel_col idx = [char_of (65 + idx mod 26)]"
      using col_unfold [of idx] by simp
    then have "bijective_base26 (col_idx_to_excel_col idx) = idx mod 26 + 1"
      using letter_value_chr [OF r] by (simp add: bijective_base26_def)
    with True show ?thesis by (simp add: div_eq_0_iff)
  next
    case False
    then have lt: "idx div 26 - 1 < idx" by auto
    have "col_idx_to_excel_col idx = col_idx_to_excel_col (idx div 26 - 1) @ [char_of (65 + idx mod 26)]"
      using False col_unfold [of idx] by simp
    then have "bijective_base26 (col_idx_to_excel_col idx) = 26 * (idx div 26 - 1 + 1) + (idx mod 26 + 1)"
      using less.IH [OF lt] letter_value_chr [OF r] bij_snoc by simp
    also have "\<dots> = 26 * (idx div 26) + idx mod 26 + 1" using False by simp
    finally show ?thesis by simp
  qed
qed

lemma col_upper: "list_all uppercase (col_idx_to_excel_col idx)"
proof (induction idx rule: less_induct)
  case (less idx)
  have r: "idx mod 26 < 26" by simp
  show ?case
  proof (cases "idx div 26 = 0")
    case True
    then show ?thesis using col_unfold [of idx] uppercase_chr [OF r] by simp
  next
    case False
    then have lt: "idx div 26 - 1 < idx" by auto
    show ?thesis using False col_unfold [of idx] uppercase_chr [OF r] less.IH [OF lt] by simp
  qed
qed

lemma col_nonempty: "col_idx_to_excel_col idx \<noteq> []"
  using col_unfold [of idx] by (simp split: if_splits)

lemma col_inj: "inj col_idx_to_excel_col"
proof (rule injI)
  fix a b assume "col_idx_to_excel_col a = col_idx_to_excel_col b"
  then have "bijective_base26 (col_idx_to_excel_col a) = bijective_base26 (col_idx_to_excel_col b)" by simp
  then show "a = b" by (simp add: bij_col)
qed

lemma col_idx_examples:
  "col_idx_to_excel_col 0 = ''A''" "col_idx_to_excel_col 25 = ''Z''"
  "col_idx_to_excel_col 26 = ''AA''" "col_idx_to_excel_col 701 = ''ZZ''"
  "col_idx_to_excel_col 702 = ''AAA''"
  by code_simp+

text \<open>
  Claim C9. For every natural number \<open>idx\<close>, \<open>col_idx_to_excel_col idx\<close> is defined (the loop
  terminates: the function is total, by the termination proof above) and is the bijective
  base-26 column label of position \<open>idx\<close>: a non-empty string of upper-case letters denoting
  \<open>idx + 1\<close>, with 0, 25, 26, 701 and 702 labelled A, Z, AA, ZZ and AAA; and the labelling is
  injective, so two positions never share a letter reference.
\<close>

theorem col_idx_to_excel_col_label:
  "col_idx_to_excel_col idx \<noteq> []
   \<and> list_all uppercase (col_idx_to_excel_col idx)
   \<and> bijective_base26 (col_idx_to_excel_col idx) = idx + 1
   \<and> col_idx_to_excel_col 0 = ''A''
   \<and> col_idx_to_excel_col 25 = ''Z''
   \<and> col_idx_to_excel_col 26 = ''AA''
   \<and> col_idx_to_excel_col 701 = ''ZZ''
   \<and> col_idx_to_excel_col 702 = ''AAA''
   \<and> inj col_idx_to_excel_col"
  using col_nonempty col_upper bij_col col_idx_examples col_inj by blast

subsection \<open>Facts about the pandas operations\<close>

lemma set_dropna: "set (dropna xs) = {x. Some x \<in> set xs}"
  by (induction xs rule: dropna.induct) auto

lemma set_unique: "set (unique xs) = set xs"
  by (simp add: unique_def)

lemma distinct_unique: "distinct (unique xs)"
  by (simp add: unique_def)

lemma sum_list_dropna: "sum_list (dropna xs) = (\<Sum>x\<leftarrow>xs. case x of None \<Rightarrow> 0 | Some v \<Rightarrow> v)"
  by (induction xs rule: dropna.induct) simp_all

lemma series_sum_Sales: "series_sum (map Sales df) = (\<Sum>r\<leftarrow>df. amount r)"
  by (simp add: series_sum_def sum_list_dropna amount_def comp_def)

lemma number_of_xl_number: "number_of (xl_number (Sales r)) = amount r"
  by (cases "Sales r") (simp_all add: amount_def)

lemma xl_SUM_sales_column: "xl_SUM (sales_column df) = (\<Sum>r\<leftarrow>df. amount r)"
  by (simp add: xl_SUM_def sales_column_def data_column_def comp_def number_of_xl_number)

lemma xl_SUMIF_maps:
  "xl_SUMIF (map f df) c (map g df) = (\<Sum>r\<leftarrow>filter (\<lambda>r. xl_matches c (f r)) df. number_of (g r))"
  by (induction df) (simp_all add: xl_SUMIF_def xl_SUM_def)

lemma xl_SUMIF_header:
  "xl_SUMIF (Text a # crit_range) c (Text b # sum_range) = xl_SUMIF crit_range c sum_range"
  by (simp add: xl_SUMIF_def xl_SUM_def)

lemma xl_SUMIF_data_columns:
  "xl_SUMIF (data_column a f df) c (sales_column df) =
     (\<Sum>r\<leftarrow>filter (\<lambda>r. xl_matches c (f r)) df. amount r)"
  by (simp add: data_column_def sales_column_def xl_SUMIF_header xl_SUMIF_maps number_of_xl_number)

lemma sum_list_indicator:
  "distinct ks \<Longrightarrow> (\<Sum>k\<leftarrow>ks. if k0 = k then (c::rat) else 0) = (if k0 \<in> set ks then c else 0)"
  by (induction ks) auto

lemma sum_list_groups:
  fixes v :: "'r \<Rightarrow> rat"
  assumes "distinct ks"
  shows "(\<Sum>k\<leftarrow>ks. \<Sum>r\<leftarrow>filter (\<lambda>r. key r = Some k) df. v r) =
           (\<Sum>r\<leftarrow>filter (\<lambda>r. case key r of None \<Rightarrow> False | Some k \<Rightarrow> k \<in> set ks) df. v r)"
proof (induction df)
  case Nil
  show ?case by simp
next
  case (Cons r df)
  have "(\<Sum>k\<leftarrow>ks. \<Sum>r\<leftarrow>filter (\<lambda>r. key r = Some k) (r # df). v r) =
          (\<Sum>k\<leftarrow>ks. (if key r = Some k then v r else 0) + (\<Sum>r\<leftarrow>filter (\<lambda>r. key r = Some k) df. v r))"
    by (rule arg_cong [where f = sum_list]) (rule map_cong, simp_all)
  also have "\<dots> = (\<Sum>k\<leftarrow>ks. if key r = Some k then v r else 0) +
                    (\<Sum>k\<leftarrow>ks. \<Sum>r\<leftarrow>filter (\<lambda>r. key r = Some k) df. v r)"
    by (simp add: sum_list_addf)
  also have "(\<Sum>k\<leftarrow>ks. if key r = Some k then v r else 0) =
               (case key r of None \<Rightarrow> 0 | Some k \<Rightarrow> if k \<in> set ks then v r else 0)"
  proof (cases "key r")
    case None
    then show ?thesis by simp
  next
    case (Some k0)
    then show ?thesis using sum_list_indicator [OF assms, of k0 "v r"] by simp
  qed
  finally show ?case using Cons.IH by (simp split: option.splits)
qed


subsection \<open>Manager sheet\<close>

lemma to_upper_no_wildcard:
  assumes "letter c \<or> c = CHR '' ''"
  shows "to_upper c \<noteq> CHR ''*'' \<and> to_upper c \<noteq> CHR ''?'' \<and> to_upper c \<noteq> CHR ''~''"
proof (cases "map_of (zip ''abcdefghijklmnopqrstuvwxyz'' ''ABCDEFGHIJKLMNOPQRSTUVWXYZ'') c")
  case None
  then have "to_upper c = c" by (simp add: to_upper_def)
  moreover have "c \<noteq> CHR ''*'' \<and> c \<noteq> CHR ''?'' \<and> c \<noteq> CHR ''~''"
    using assms unfolding letter_def less_eq_char_def by auto
  ultimately show ?thesis by simp
next
  case (Some u)
  then have "u \<in> set ''ABCDEFGHIJKLMNOPQRSTUVWXYZ''"
    by (meson map_of_SomeD set_zip_rightD)
  moreover from Some have "to_upper c = u" by (simp add: to_upper_def)
  ultimately show ?thesis by auto
qed

lemma wildcard_match_literal:
  "list_all (\<lambda>c. c \<noteq> CHR ''*'' \<and> c \<noteq> CHR ''?'' \<and> c \<noteq> CHR ''~'') p \<Longrightarrow>
     wildcard_match p t = (t = p)"
  by (induction p t rule: wildcard_match.induct) auto

lemma plain_name_literal:
  assumes "plain_name m"
  shows "list_all (\<lambda>c. c \<noteq> CHR ''*'' \<and> c \<noteq> CHR ''?'' \<and> c \<noteq> CHR ''~'') (map to_upper m)"
  using assms to_upper_no_wildcard
  by (auto simp: plain_name_def list_all_iff)

lemma xl_matches_plain:
  assumes "plain_name m"
  shows "xl_matches m (xl_text x) = (name_key x = Some (map to_upper m))"
proof (cases x)
  case None
  then show ?thesis by (simp add: name_key_def)
next
  case (Some s)
  from assms have "m \<noteq> []" by (simp add: plain_name_def)
  then show ?thesis
    using Some wildcard_match_literal [OF plain_name_literal [OF assms]]
    by (auto simp: name_key_def)
qed

lemma replace_empty_NA_truthy:
  "(replace_empty_NA x \<noteq> None) = truthy x"
  by (cases x) auto

lemma set_managers:
  "set (managers df) = {m. m \<noteq> [] \<and> Some m \<in> Manager ` set df}"
proof -
  have "\<And>m. (Some m \<in> (\<lambda>r. replace_empty_NA (Manager r)) ` set df) = (m \<noteq> [] \<and> Some m \<in> Manager ` set df)"
  proof -
    fix m
    have "\<And>r. (replace_empty_NA (Manager r) = Some m) = (m \<noteq> [] \<and> Manager r = Some m)"
    proof -
      fix r show "(replace_empty_NA (Manager r) = Some m) = (m \<noteq> [] \<and> Manager r = Some m)"
        by (cases "Manager r") auto
    qed
    then show "(Some m \<in> (\<lambda>r. replace_empty_NA (Manager r)) ` set df) = (m \<noteq> [] \<and> Some m \<in> Manager ` set df)"
      by (auto simp: image_iff eq_commute)
  qed
  then show ?thesis
    by (simp add: managers_def set_unique set_dropna)
qed

lemma distinct_managers_list: "distinct (managers df)"
  by (simp add: managers_def distinct_unique)

lemma sorted_managers: "sorted (managers df)"
  by (simp add: managers_def)

lemma manager_sales_formula_plain:
  "plain_name m \<Longrightarrow>
     manager_sales_formula df m =
       (\<Sum>r\<leftarrow>filter (\<lambda>r. name_key (Manager r) = Some (map to_upper m)) df. amount r)"
  by (simp add: manager_sales_formula_def manager_column_def xl_SUMIF_data_columns xl_matches_plain)

lemma map_mgr_manager_sheet: "map mgr (manager_sheet df) = managers df"
  by (simp add: manager_sheet_def comp_def)

lemma map_mgr_sales_manager_sheet:
  "map mgr_sales (manager_sheet df) = map (manager_sales_formula df) (managers df)"
  by (simp add: manager_sheet_def comp_def)

lemma manager_sheet_total:
  assumes plain: "list_all plain_name (managers df)"
    and apart: "distinct (map (map to_upper) (managers df))"
  shows "sum_list (map mgr_sales (manager_sheet df)) =
           (\<Sum>r\<leftarrow>filter (\<lambda>r. truthy (Manager r)) df. amount r)"
proof -
  let ?key = "\<lambda>r. name_key (Manager r)"
  let ?ks = "map (map to_upper) (managers df)"
  have inks: "\<And>r. r \<in> set df \<Longrightarrow>
      (case ?key r of None \<Rightarrow> False | Some k \<Rightarrow> k \<in> set ?ks) = truthy (Manager r)"
  proof -
    fix r assume r: "r \<in> set df"
    show "(case ?key r of None \<Rightarrow> False | Some k \<Rightarrow> k \<in> set ?ks) = truthy (Manager r)"
    proof (cases "Manager r")
      case None
      then show ?thesis by (simp add: name_key_def)
    next
      case (Some s)
      show ?thesis
      proof (cases "s = []")
        case True
        with Some show ?thesis by (simp add: name_key_def)
      next
        case False
        with Some r have "s \<in> set (managers df)"
          by (auto simp: set_managers image_iff intro!: bexI [of _ r])
        then have "map to_upper s \<in> set ?ks" by simp
        with Some False show ?thesis by (simp add: name_key_def)
      qed
    qed
  qed
  have "map mgr_sales (manager_sheet df) =
          map (\<lambda>m. \<Sum>r\<leftarrow>filter (\<lambda>r. ?key r = Some (map to_upper m)) df. amount r) (managers df)"
    unfolding map_mgr_sales_manager_sheet
    using plain by (intro map_cong refl manager_sales_formula_plain) (simp add: list_all_iff)
  also have "\<dots> = map (\<lambda>k. \<Sum>r\<leftarrow>filter (\<lambda>r. ?key r = Some k) df. amount r) ?ks"
    by (simp add: comp_def)
  finally have "sum_list (map mgr_sales (manager_sheet df)) =
          (\<Sum>k\<leftarrow>?ks. \<Sum>r\<leftarrow>filter (\<lambda>r. ?key r = Some k) df. amount r)"
    by simp
  also have "\<dots> = (\<Sum>r\<leftarrow>filter (\<lambda>r. case ?key r of None \<Rightarrow> False | Some k \<Rightarrow> k \<in> set ?ks) df. amount r)"
    by (rule sum_list_groups [OF apart])
  also have "filter (\<lambda>r. case ?key r of None \<Rightarrow> False | Some k \<Rightarrow> k \<in> set ?ks) df =
             filter (\<lambda>r. truthy (Manager r)) df"
    using inks by (auto intro: filter_cong)
  finally show ?thesis .
qed

subsection \<open>Preparation\<close>

lemma Sales_prepare: "Sales (prepare r) = Sales r"
  by (simp add: prepare_def)

lemma amount_prepare: "amount (prepare r) = amount r"
  by (simp add: amount_def Sales_prepare)

lemma Manager_prepare: "Manager (prepare r) = fillna [] (Manager r)"
  by (simp add: prepare_def)

lemma Order_ID_prepare: "Order_ID (prepare r) = Order_ID r"
  by (simp add: prepare_def)

lemma truthy_fillna: "truthy (fillna [] x) = truthy x"
  by (cases x) simp_all

lemma fillna_named: "m \<noteq> [] \<Longrightarrow> (fillna [] x = Some m) = (x = Some m)"
  by (cases x) auto

lemma named_in_filled:
  assumes "m \<noteq> []"
  shows "(Some m \<in> (\<lambda>r. fillna [] (Manager r)) ` set rs) = (Some m \<in> Manager ` set rs)"
proof
  assume "Some m \<in> (\<lambda>r. fillna [] (Manager r)) ` set rs"
  then obtain r where r: "r \<in> set rs" and "Some m = fillna [] (Manager r)"
    by (rule imageE)
  then have "Manager r = Some m"
    using fillna_named [OF assms, of "Manager r"] by simp
  with r show "Some m \<in> Manager ` set rs"
    by (metis imageI)
next
  assume "Some m \<in> Manager ` set rs"
  then obtain r where r: "r \<in> set rs" and "Some m = Manager r"
    by (rule imageE)
  then have "fillna [] (Manager r) = Some m"
    using fillna_named [OF assms, of "Manager r"] by simp
  with r show "Some m \<in> (\<lambda>r. fillna [] (Manager r)) ` set rs"
    by (metis (mono_tags, lifting) imageI)
qed

lemma set_managers_prepare:
  "set (managers (map prepare rs)) = {m. m \<noteq> [] \<and> Some m \<in> Manager ` set rs}"
proof -
  have img: "Manager ` set (map prepare rs) = (\<lambda>r. fillna [] (Manager r)) ` set rs"
    by (simp add: image_image Manager_prepare)
  show ?thesis
    unfolding set_managers img using named_in_filled [of _ rs] by blast
qed

subsection \<open>Runs\<close>

lemma input_and_output_paths_differ: "INPUT_FILE \<noteq> OUTPUT_FILE"
  by (simp add: INPUT_FILE_def OUTPUT_FILE_def)

lemma completes_output:
  assumes "input_file st = Some loaded" and "completes st"
  shows "\<exists>ag f. fst (main st) = Inr ag
           \<and> compute_aggregates (map prepare (rows loaded)) = Inr ag
           \<and> findings_lines ag = Inr f
           \<and> output_file (snd (main st)) =
               Some ((sheets (columns loaded) (map prepare (rows loaded)))\<lparr>findings_page := Some f\<rparr>)"
  using assms
  by (auto simp: completes_def main_def did_def Let_def split: sum.splits)

lemma saves_output_workbook:
  assumes "input_file st = Some loaded" and "saves_output st"
  shows "\<exists>fp. output_file (snd (main st)) =
               Some ((sheets (columns loaded) (map prepare (rows loaded)))\<lparr>findings_page := fp\<rparr>)"
proof (cases "check_required required (columns loaded)")
  case (Inl e)
  with assms show ?thesis
    by (simp add: saves_output_def main_def did_def)
next
  case chk: (Inr u)
  show ?thesis
  proof (cases "compute_aggregates (map prepare (rows loaded))")
    case (Inl e)
    with assms chk show ?thesis
      by (simp add: saves_output_def main_def did_def)
  next
    case agg: (Inr ag)
    show ?thesis
    proof (cases "findings_lines ag")
      case (Inl e)
      with assms(1) chk agg have "output_file (snd (main st)) =
          Some ((sheets (columns loaded) (map prepare (rows loaded)))\<lparr>findings_page := None\<rparr>)"
        by (simp add: main_def did_def Let_def sheets_def)
      then show ?thesis by blast
    next
      case (Inr f)
      with assms(1) chk agg have "output_file (snd (main st)) =
          Some ((sheets (columns loaded) (map prepare (rows loaded)))\<lparr>findings_page := Some f\<rparr>)"
        by (simp add: main_def did_def Let_def)
      then show ?thesis by blast
    qed
  qed
qed

lemma completes_saves_output: "completes st \<Longrightarrow> saves_output st"
  by (auto simp: completes_def saves_output_def main_def did_def Let_def
           split: option.splits sum.splits)

lemma toy_completes: "completes (fresh_run toy_frame)"
  by code_simp

lemma undated_leader_raises:
  "fst (main (fresh_run undated_leader_frame)) = Inl (KeyError ''Technology'')"
  "saves_output (fresh_run undated_leader_frame)"
  "map_option findings_page (output_file (snd (main (fresh_run undated_leader_frame)))) = Some None"
  by code_simp+

lemma unassigned_completes: "completes (fresh_run unassigned_frame)"
  by code_simp

lemma total_sales_val_prepare:
  "total_sales_val (map prepare rs) = series_sum (map Sales rs)"
  by (simp add: total_sales_val_def comp_def Sales_prepare)

lemma kpi_total_sales_sheets:
  "kpi_total_sales (dashboard (sheets header (map prepare rs))) = series_sum (map Sales rs)"
  by (simp add: sheets_def dashboard_sheet_def xl_SUM_sales_column series_sum_Sales comp_def amount_prepare)

lemma manager_performance_sheets:
  "manager_performance (sheets header df) = manager_sheet df"
  by (simp add: sheets_def)

lemma filter_truthy_prepare:
  "(\<Sum>r\<leftarrow>filter (\<lambda>r. truthy (Manager r)) (map prepare rs). amount r) =
   (\<Sum>r\<leftarrow>filter (\<lambda>r. truthy (Manager r)) rs. amount r)"
  by (induction rs) (simp_all add: Manager_prepare truthy_fillna amount_prepare)

lemma plain_managers_sheet:
  assumes "plain_managers rs"
  shows "list_all plain_name (managers (map prepare rs))"
proof -
  have "plain_name m" if "m \<in> set (managers (map prepare rs))" for m
  proof -
    from that have "Some m \<in> Manager ` set rs"
      by (simp add: set_managers_prepare)
    then obtain r where "r \<in> set rs" and "Manager r = Some m"
      by (metis (no_types) imageE)
    with assms show ?thesis
      by (auto simp: plain_managers_def list_all_iff)
  qed
  then show ?thesis by (simp add: list_all_iff)
qed

lemma plain_managers_all_named:
  assumes "plain_managers rs"
  shows "filter (\<lambda>r. truthy (Manager r)) rs = rs"
proof -
  have "truthy (Manager r)" if "r \<in> set rs" for r
  proof (cases "Manager r")
    case None
    with assms that show ?thesis
      by (auto simp: plain_managers_def list_all_iff)
  next
    case (Some m)
    with assms that have "plain_name m"
      by (auto simp: plain_managers_def list_all_iff)
    with Some show ?thesis by (simp add: plain_name_def)
  qed
  then show ?thesis by (simp add: filter_id_conv)
qed

lemma names_apart_sheet:
  assumes "names_differ_beyond_case rs"
  shows "distinct (map (map to_upper) (managers (map prepare rs)))"
proof -
  from assms have "inj_on (map to_upper) (set (dropna (map Manager rs)))"
    by (simp add: names_differ_beyond_case_def distinct_map)
  moreover have "set (managers (map prepare rs)) \<subseteq> set (dropna (map Manager rs))"
    by (auto simp: set_managers_prepare set_dropna)
  ultimately have "inj_on (map to_upper) (set (managers (map prepare rs)))"
    by (rule inj_on_subset)
  then show ?thesis
    by (simp add: distinct_map distinct_managers_list)
qed

text \<open>
  Claim C1, as amended. For every input in which every line names a manager by a plain name,
  no two names differ in case only, and the amounts are whole numbers whose absolute values add
  up to less than \<open>2 ^ 53\<close>, a run that saves a workbook saves one in which the SUMIF totals of
  the Manager Performance sheet add up to the Total Sales figure of the Dashboard, which is the
  sum of the whole sales column. The first hypothesis puts every line on the sheet; with the
  second, a line meets the criterion of its own manager's row and of no other; on the third,
  the sums the program computes in doubles are the exact sums stated here.
\<close>

theorem manager_sales_sum_to_total:
  assumes "input_file st = Some loaded"
    and "saves_output st"
    and "plain_managers (rows loaded)"
    and "names_differ_beyond_case (rows loaded)"
    and "whole_amounts (rows loaded)"
  shows "\<exists>wb. output_file (snd (main st)) = Some wb
           \<and> sum_list (map mgr_sales (manager_performance wb)) = kpi_total_sales (dashboard wb)
           \<and> kpi_total_sales (dashboard wb) = series_sum (map Sales (rows loaded))"
proof -
  from saves_output_workbook [OF assms(1,2)] obtain fp where
    out: "output_file (snd (main st)) =
            Some ((sheets (columns loaded) (map prepare (rows loaded)))\<lparr>findings_page := fp\<rparr>)"
    by blast
  have "sum_list (map mgr_sales (manager_sheet (map prepare (rows loaded)))) =
          (\<Sum>r\<leftarrow>rows loaded. amount r)"
    using manager_sheet_total [OF plain_managers_sheet [OF assms(3)] names_apart_sheet [OF assms(4)]]
    by (simp add: filter_truthy_prepare plain_managers_all_named [OF assms(3)])
  then show ?thesis
    using out by (simp add: manager_performance_sheets kpi_total_sales_sheets series_sum_Sales)
qed

theorem manager_sales_sum_to_total_witness:
  "plain_managers (rows toy_frame)
   \<and> names_differ_beyond_case (rows toy_frame)
   \<and> whole_amounts (rows toy_frame)
   \<and> (\<exists>wb. output_file (snd (main (fresh_run toy_frame))) = Some wb
           \<and> sum_list (map mgr_sales (manager_performance wb)) = kpi_total_sales (dashboard wb)
           \<and> kpi_total_sales (dashboard wb) = series_sum (map Sales (rows toy_frame)))"
proof -
  have h1: "input_file (fresh_run toy_frame) = Some toy_frame"
    by (simp add: fresh_run_def)
  have h3: "plain_managers (rows toy_frame)"
    by code_simp
  have h4: "names_differ_beyond_case (rows toy_frame)"
    by code_simp
  have h5: "whole_amounts (rows toy_frame)"
    by code_simp
  show ?thesis
    using manager_sales_sum_to_total [OF h1 completes_saves_output [OF toy_completes] h3 h4 h5] h3 h4 h5
    by blast
qed

text \<open>
  Why the names must differ beyond case: the criteria \<open>Bob\<close> and \<open>bob\<close> select the same
  lines, so each of the two rows of the sheet shows the sum of both managers.
\<close>

lemma case_only_names_overlap:
  "plain_managers (rows case_frame)"
  "\<not> names_differ_beyond_case (rows case_frame)"
  "map_option (\<lambda>wb. (map (\<lambda>r. (mgr r, mgr_sales r)) (manager_performance wb),
                     kpi_total_sales (dashboard wb)))
     (output_file (snd (main (fresh_run case_frame)))) =
   Some ([(''Bob'', 300), (''bob'', 300)], 300)"
  by code_simp+

text \<open>
  Claim C1 as stated fails on a line without a manager: the line gets no row on the manager
  sheet, and its 50 is still in the total. The sheet adds up to 200, the Dashboard shows 250.
\<close>

theorem manager_sales_sum_counterexample:
  "map_option (\<lambda>wb. (sum_list (map mgr_sales (manager_performance wb)), kpi_total_sales (dashboard wb)))
     (output_file (snd (main (fresh_run unassigned_frame)))) = Some (200, 250)"
  by code_simp

subsection \<open>The missing input file\<close>

text \<open>
  Claim C8. If the input file does not exist, the run ends at once with a
  \<open>FileNotFoundError\<close> whose message names the file; the state is the one the run started in:
  no stage was performed (nothing loaded, no aggregate computed, no output opened) and the
  output path holds what it held.
\<close>

theorem missing_input_file_fails_first:
  assumes "input_file st = None"
  shows "main st = (Inl (FileNotFoundError file_not_found_message), st)
         \<and> performed (snd (main st)) = performed st
         \<and> output_file (snd (main st)) = output_file st"
  using assms by (simp add: main_def)

theorem missing_input_file_fails_first_witness:
  "input_file empty_folder = None
   \<and> main empty_folder =
       (Inl (FileNotFoundError
          (''Input file '' @ [CHR 0x27] @ ''GLOBAL DATASET .xlsx'' @ [CHR 0x27] @
           '' not found. Put the dataset in same folder or change INPUT_FILE.'')), empty_folder)
   \<and> performed (snd (main empty_folder)) = []
   \<and> output_file (snd (main empty_folder)) = None"
proof -
  have h: "input_file empty_folder = None"
    by (simp add: empty_folder_def)
  show ?thesis
    using missing_input_file_fails_first [OF h] h
    by (simp add: file_not_found_message_def INPUT_FILE_def empty_folder_def)
qed

subsection \<open>Required columns\<close>

lemma check_required_find:
  "check_required req cols =
     (case find (\<lambda>c. c \<notin> set cols) req of
        None \<Rightarrow> Inr ()
      | Some c \<Rightarrow> Inl (ValueError (missing_column_message c)))"
  by (induction req) simp_all

lemma find_first_absent:
  assumes "c \<in> set req" and "c \<notin> set cols"
  shows "\<exists>c'. find (\<lambda>c. c \<notin> set cols) req = Some c' \<and> c' \<in> set req \<and> c' \<notin> set cols
           \<and> ((\<forall>b\<in>set (takeWhile (\<lambda>b. b \<noteq> c) req). b \<in> set cols) \<longrightarrow> c' = c)"
  using assms
proof (induction req)
  case Nil
  then show ?case by simp
next
  case (Cons a req)
  show ?case
  proof (cases "a \<notin> set cols")
    case True
    then show ?thesis by auto
  next
    case False
    with Cons.prems have "c \<in> set req" by auto
    from Cons.IH [OF this Cons.prems(2)] False Cons.prems(2) show ?thesis
      by auto
  qed
qed

text \<open>
  Claim C2 as stated fails when two required columns are absent: with neither \<open>Category\<close> nor
  \<open>Sales\<close> in the header, the error names \<open>Category\<close>, the first one the loop meets, and not
  \<open>Sales\<close>.
\<close>

theorem missing_required_column_counterexample:
  "''Sales'' \<in> set required \<and> ''Sales'' \<notin> set (columns short_header_frame)
   \<and> fst (main (fresh_run short_header_frame)) = Inl (ValueError (missing_column_message ''Category''))
   \<and> missing_column_message ''Category'' = ''Required column missing from input: '' @ [CHR 0x27] @ ''Category'' @ [CHR 0x27]
   \<and> fst (main (fresh_run short_header_frame)) \<noteq> Inl (ValueError (missing_column_message ''Sales''))"
  by (simp add: main_def fresh_run_def short_header_frame_def required_def missing_column_message_def)

text \<open>
  Claim C2, as amended. For every input and every required column absent from its header, the
  run ends with a \<open>ValueError\<close> whose message names the first absent required column, in the
  order of the list \<open>required\<close>; that is the column itself when every required column listed
  before it is present. Only the load was performed, and the output path holds what it held.
\<close>

theorem missing_required_column_fails:
  assumes "input_file st = Some loaded"
    and "c \<in> set required"
    and "c \<notin> set (columns loaded)"
  shows "\<exists>c'. find (\<lambda>c. c \<notin> set (columns loaded)) required = Some c'
           \<and> main st = (Inl (ValueError (missing_column_message c')), did LoadInput st)
           \<and> output_file (snd (main st)) = output_file st
           \<and> ((\<forall>b\<in>set (takeWhile (\<lambda>b. b \<noteq> c) required). b \<in> set (columns loaded)) \<longrightarrow> c' = c)"
proof -
  from find_first_absent [OF assms(2,3)] obtain c' where
    f: "find (\<lambda>c. c \<notin> set (columns loaded)) required = Some c'"
    and l: "(\<forall>b\<in>set (takeWhile (\<lambda>b. b \<noteq> c) required). b \<in> set (columns loaded)) \<longrightarrow> c' = c"
    by blast
  have "main st = (Inl (ValueError (missing_column_message c')), did LoadInput st)"
    using assms(1) f by (simp add: main_def check_required_find)
  then show ?thesis using f l by (simp add: did_def)
qed

theorem missing_required_column_fails_witness:
  "''Category'' \<in> set required \<and> ''Category'' \<notin> set (columns short_header_frame)
   \<and> main (fresh_run short_header_frame) =
        (Inl (ValueError (missing_column_message ''Category'')),
         did LoadInput (fresh_run short_header_frame))
   \<and> output_file (snd (main (fresh_run short_header_frame))) = None"
proof -
  have h1: "input_file (fresh_run short_header_frame) = Some short_header_frame"
    by (simp add: fresh_run_def)
  have h2: "''Category'' \<in> set required"
    by (simp add: required_def)
  have h3: "''Category'' \<notin> set (columns short_header_frame)"
    by (simp add: short_header_frame_def)
  have h4: "\<forall>b\<in>set (takeWhile (\<lambda>b. b \<noteq> ''Category'') required). b \<in> set (columns short_header_frame)"
    by (simp add: required_def short_header_frame_def)
  from missing_required_column_fails [OF h1 h2 h3] h4 h2 h3 show ?thesis
    by (auto simp: fresh_run_def)
qed

subsection \<open>Dates that cannot be read\<close>

text \<open>
  Claim C4 does not hold of the script. The frame \<open>bad_dates_frame\<close> has every required
  column and one line with an unreadable date. The date is coerced to \<open>NaT\<close>, the list of
  years is empty, and \<^verbatim>\<open>int(years[0])\<close> raises \<open>IndexError\<close> before the writer is opened: no
  output file is produced.
\<close>

theorem malformed_dates_raise:
  "check_required required (columns bad_dates_frame) = Inr ()
   \<and> main (fresh_run bad_dates_frame) = (Inl IndexError, did LoadInput (fresh_run bad_dates_frame))
   \<and> output_file (snd (main (fresh_run bad_dates_frame))) = None"
  by code_simp

subsection \<open>Average order value\<close>

lemma total_orders_prepare:
  "total_orders (map prepare rs) = nunique (map Order_ID rs)"
  by (simp add: total_orders_def comp_def Order_ID_prepare)

lemma avg_order_value_prepare:
  "avg_order_value (map prepare rs) =
     (if nunique (map Order_ID rs) = 0 then 0
      else series_sum (map Sales rs) / of_nat (nunique (map Order_ID rs)))"
  by (simp add: avg_order_value_def total_orders_prepare total_sales_val_prepare)

lemma compute_aggregates_avg:
  "compute_aggregates df = Inr ag \<Longrightarrow> agg_avg_order_value ag = avg_order_value df"
  by (auto simp: compute_aggregates_def split: list.splits sum.splits)

lemma findings_lines_avg:
  "findings_lines ag = Inr f \<Longrightarrow> f_avg_order_value f = agg_avg_order_value ag"
  by (auto simp: findings_lines_def split: sum.splits)

text \<open>
  Claim C3 as stated fails on its last part. For one order of two lines of 100 each, the
  findings page reports 200 (one order), the Dashboard cell shows 200 / 3: its formula divides
  by \<^verbatim>\<open>COUNTA\<close> of the whole order column, which counts lines, not orders, and counts the
  header cell too.
\<close>

theorem dashboard_average_order_value_counterexample:
  "map_option (\<lambda>wb. (kpi_avg_order_value (dashboard wb), map_option f_avg_order_value (findings_page wb)))
     (output_file (snd (main (fresh_run repeated_order_frame)))) = Some (200 / 3, Some 200)"
  by code_simp

text \<open>
  Claim C3, as amended. For every input on which the run completes, the average order value
  the script computes and writes on the findings page is the total of the sales column divided
  by the number of distinct order identifiers, and 0 when there is none.
\<close>

theorem findings_average_order_value:
  assumes "input_file st = Some loaded" and "completes st"
  shows "\<exists>ag wb f. fst (main st) = Inr ag
           \<and> output_file (snd (main st)) = Some wb
           \<and> findings_page wb = Some f
           \<and> f_avg_order_value f = agg_avg_order_value ag
           \<and> agg_avg_order_value ag =
               (if nunique (map Order_ID (rows loaded)) = 0 then 0
                else series_sum (map Sales (rows loaded))
                       / of_nat (nunique (map Order_ID (rows loaded))))"
proof -
  from completes_output [OF assms] obtain ag f where
    res: "fst (main st) = Inr ag"
    and ag: "compute_aggregates (map prepare (rows loaded)) = Inr ag"
    and f: "findings_lines ag = Inr f"
    and out: "output_file (snd (main st)) =
            Some ((sheets (columns loaded) (map prepare (rows loaded)))\<lparr>findings_page := Some f\<rparr>)"
    by blast
  have "agg_avg_order_value ag =
               (if nunique (map Order_ID (rows loaded)) = 0 then 0
                else series_sum (map Sales (rows loaded))
                       / of_nat (nunique (map Order_ID (rows loaded))))"
    using compute_aggregates_avg [OF ag] by (simp add: avg_order_value_prepare)
  then show ?thesis
    using res out findings_lines_avg [OF f] by simp
qed

theorem findings_average_order_value_witness:
  "\<exists>ag wb f. fst (main (fresh_run toy_frame)) = Inr ag
           \<and> output_file (snd (main (fresh_run toy_frame))) = Some wb
           \<and> findings_page wb = Some f
           \<and> f_avg_order_value f = agg_avg_order_value ag
           \<and> agg_avg_order_value ag = 150"
proof -
  have h1: "input_file (fresh_run toy_frame) = Some toy_frame"
    by (simp add: fresh_run_def)
  have v: "(if nunique (map Order_ID (rows toy_frame)) = 0 then 0
                else series_sum (map Sales (rows toy_frame))
                       / of_nat (nunique (map Order_ID (rows toy_frame)))) = 150"
    by code_simp
  show ?thesis
    using findings_average_order_value [OF h1 toy_completes] unfolding v by blast
qed

subsection \<open>The toy dataset\<close>

lemma A_le_B: "''A'' \<le> ''B''" "\<not> ''B'' \<le> ''A''" "''A'' \<noteq> ''B''"
  by code_simp+

lemma A_B_plain:
  "plain_name ''A''" "plain_name ''B''"
  "map to_upper ''A'' = ''A''" "map to_upper ''B'' = ''B''"
  by code_simp+

text \<open>
  Claim C6. For a dataset of two lines, manager A with sales 100 and manager B with sales 200,
  a run that saves a workbook writes a Manager Performance sheet with A at 100 ranked 2 and B at 200
  ranked 1, and a Total Sales figure of 300 on the Dashboard. The other columns of the two
  lines are arbitrary; the witness takes both lines in 2011.
\<close>

theorem two_manager_ranks_and_total:
  assumes "input_file st = Some loaded" and "saves_output st"
    and "rows loaded = [a, b]"
    and "Manager a = Some ''A''" and "Sales a = Some 100"
    and "Manager b = Some ''B''" and "Sales b = Some 200"
  shows "\<exists>wb. output_file (snd (main st)) = Some wb
           \<and> map (\<lambda>r. (mgr r, mgr_sales r, mgr_rank r)) (manager_performance wb) =
               [(''A'', 100, 2), (''B'', 200, 1)]
           \<and> kpi_total_sales (dashboard wb) = 300"
proof -
  from saves_output_workbook [OF assms(1,2)] obtain fp where
    out: "output_file (snd (main st)) =
            Some ((sheets (columns loaded) (map prepare (rows loaded)))\<lparr>findings_page := fp\<rparr>)"
    by blast
  let ?df = "map prepare (rows loaded)"
  have ma: "amount a = 100" and mb: "amount b = 200"
    using assms(5,7) by (simp_all add: amount_def)
  have ms: "managers ?df = [''A'', ''B'']"
    using assms(3,4,6) A_le_B by (simp add: managers_def Manager_prepare unique_def)
  have fa: "manager_sales_formula ?df ''A'' = 100"
    using assms(3,4,6) ma mb A_le_B A_B_plain(3,4)
    by (simp add: manager_sales_formula_plain [OF A_B_plain(1)] name_key_def Manager_prepare amount_prepare)
  have fb: "manager_sales_formula ?df ''B'' = 200"
    using assms(3,4,6) ma mb A_le_B A_B_plain(3,4)
    by (simp add: manager_sales_formula_plain [OF A_B_plain(2)] name_key_def Manager_prepare amount_prepare)
  have sheet: "map (\<lambda>r. (mgr r, mgr_sales r, mgr_rank r)) (manager_sheet ?df) =
               [(''A'', 100, 2), (''B'', 200, 1)]"
    by (simp add: manager_sheet_def ms fa fb xl_RANK_def)
  have total: "series_sum (map Sales (rows loaded)) = 300"
    using assms(3,5,7) by (simp add: series_sum_def)
  show ?thesis
    using out sheet total by (simp add: manager_performance_sheets kpi_total_sales_sheets)
qed

theorem two_manager_ranks_and_total_witness:
  "\<exists>wb. output_file (snd (main (fresh_run toy_frame))) = Some wb
           \<and> map (\<lambda>r. (mgr r, mgr_sales r, mgr_rank r)) (manager_performance wb) =
               [(''A'', 100, 2), (''B'', 200, 1)]
           \<and> kpi_total_sales (dashboard wb) = 300"
proof -
  have h1: "input_file (fresh_run toy_frame) = Some toy_frame"
    by (simp add: fresh_run_def)
  have h3: "rows toy_frame = [rows toy_frame ! 0, rows toy_frame ! 1]"
    by (simp add: toy_frame_def)
  have h4: "Manager (rows toy_frame ! 0) = Some ''A''"
    and h5: "Sales (rows toy_frame ! 0) = Some 100"
    and h6: "Manager (rows toy_frame ! 1) = Some ''B''"
    and h7: "Sales (rows toy_frame ! 1) = Some 200"
    by (simp_all add: toy_frame_def)
  show ?thesis
    by (rule two_manager_ranks_and_total [OF h1 completes_saves_output [OF toy_completes] h3 h4 h5 h6 h7])
qed

subsection \<open>Lines without a manager\<close>

lemma data_rows_sheets: "data_rows (sheets header df) = df"
  by (simp add: sheets_def)

lemma Manager_prepare_missing: "Manager r = None \<Longrightarrow> Manager (prepare r) = Some []"
  by (simp add: Manager_prepare)

text \<open>
  Claim C10. For every input on which the run saves a workbook: the Data sheet holds the prepared
  lines, in which a missing manager has become the empty string; the names on the Manager
  Performance sheet are sorted, without repetition, and are exactly the non-empty manager
  values of the input, so a line without a manager has no row there; the sales column of the
  Data sheet is the input's, and the Total Sales figure is the sum of all of it, the lines
  without a manager included.
\<close>

theorem missing_manager_rows:
  assumes "input_file st = Some loaded" and "saves_output st"
  shows "\<exists>wb. output_file (snd (main st)) = Some wb
           \<and> data_rows wb = map prepare (rows loaded)
           \<and> (\<forall>r\<in>set (rows loaded). Manager r = None \<longrightarrow> Manager (prepare r) = Some [])
           \<and> sorted (map mgr (manager_performance wb))
           \<and> distinct (map mgr (manager_performance wb))
           \<and> set (map mgr (manager_performance wb)) =
                {m. m \<noteq> [] \<and> Some m \<in> Manager ` set (rows loaded)}
           \<and> map Sales (data_rows wb) = map Sales (rows loaded)
           \<and> kpi_total_sales (dashboard wb) = series_sum (map Sales (rows loaded))"
proof -
  from saves_output_workbook [OF assms] obtain fp where
    out: "output_file (snd (main st)) =
            Some ((sheets (columns loaded) (map prepare (rows loaded)))\<lparr>findings_page := fp\<rparr>)"
    by blast
  let ?df = "map prepare (rows loaded)"
  let ?wb = "(sheets (columns loaded) ?df)\<lparr>findings_page := fp\<rparr>"
  have names: "map mgr (manager_performance ?wb) = managers ?df"
    by (simp add: manager_performance_sheets map_mgr_manager_sheet)
  have rows: "data_rows ?wb = ?df"
    by (simp add: data_rows_sheets)
  have filled: "\<forall>r\<in>set (rows loaded). Manager r = None \<longrightarrow> Manager (prepare r) = Some []"
    by (simp add: Manager_prepare)
  have srt: "sorted (map mgr (manager_performance ?wb))"
    unfolding names by (rule sorted_managers)
  have dst: "distinct (map mgr (manager_performance ?wb))"
    unfolding names by (rule distinct_managers_list)
  have st: "set (map mgr (manager_performance ?wb)) =
                {m. m \<noteq> [] \<and> Some m \<in> Manager ` set (rows loaded)}"
    unfolding names by (rule set_managers_prepare)
  have sales: "map Sales (data_rows ?wb) = map Sales (rows loaded)"
    by (simp add: data_rows_sheets comp_def Sales_prepare)
  have total: "kpi_total_sales (dashboard ?wb) = series_sum (map Sales (rows loaded))"
    by (simp add: kpi_total_sales_sheets)
  from out rows filled srt dst st sales total show ?thesis
    by (intro exI [of _ ?wb] conjI)
qed

theorem missing_manager_rows_witness:
  "Manager (rows unassigned_frame ! 1) = None
   \<and> (\<exists>wb. output_file (snd (main (fresh_run unassigned_frame))) = Some wb
        \<and> map Manager (data_rows wb) = [Some ''B'', Some []]
        \<and> set (map mgr (manager_performance wb)) = {''B''}
        \<and> map Sales (data_rows wb) = [Some 200, Some 50]
        \<and> kpi_total_sales (dashboard wb) = 250)"
proof -
  have h1: "input_file (fresh_run unassigned_frame) = Some unassigned_frame"
    by (simp add: fresh_run_def)
  from missing_manager_rows [OF h1 completes_saves_output [OF unassigned_completes]] obtain wb where
    out: "output_file (snd (main (fresh_run unassigned_frame))) = Some wb"
    and rows: "data_rows wb = map prepare (rows unassigned_frame)"
    and names: "set (map mgr (manager_performance wb)) =
                {m. m \<noteq> [] \<and> Some m \<in> Manager ` set (rows unassigned_frame)}"
    and sales: "map Sales (data_rows wb) = map Sales (rows unassigned_frame)"
    and total: "kpi_total_sales (dashboard wb) = series_sum (map Sales (rows unassigned_frame))"
    by blast
  have "{m. m \<noteq> [] \<and> Some m \<in> Manager ` set (rows unassigned_frame)} = {''B''}"
    by (auto simp: unassigned_frame_def)
  with names have n: "set (map mgr (manager_performance wb)) = {''B''}" by simp
  have m: "map Manager (map prepare (rows unassigned_frame)) = [Some ''B'', Some []]"
    by (simp add: unassigned_frame_def Manager_prepare)
  have s: "map Sales (rows unassigned_frame) = [Some 200, Some 50]"
    by (simp add: unassigned_frame_def)
  have t: "series_sum (map Sales (rows unassigned_frame)) = 250"
    by (simp add: unassigned_frame_def series_sum_def)
  have z: "Manager (rows unassigned_frame ! 1) = None"
    by (simp add: unassigned_frame_def)
  from out rows n sales total m s t z show ?thesis
    by (intro conjI exI [of _ wb]) simp_all
qed

end
